theory Spec2Isabelle
  imports Complex_Main "HOL-Library.Word"
begin

section \<open>JavaScript strings and numbers\<close>

text \<open>
  A JavaScript string is a sequence of 16-bit code units. \<open>js\<close> writes an ASCII literal.
  A string is falsy exactly when it is empty, so \<open>!s\<close> is \<open>s = []\<close>.
\<close>

type_synonym js_string = "16 word list"

definition js :: "string \<Rightarrow> js_string" where
  "js s = map of_char s"

text \<open>
  \<open>String.prototype.trim\<close> strips white space and line terminators from both ends:
  TAB, LF, VT, FF, CR, SP, NBSP, U+1680, U+2000 to U+200A, LS, PS, U+202F, U+205F,
  U+3000 and U+FEFF.
\<close>

definition is_white_space :: "16 word \<Rightarrow> bool" where
  "is_white_space c \<longleftrightarrow>
     c \<in> {0x09, 0x0A, 0x0B, 0x0C, 0x0D, 0x20, 0xA0, 0x1680, 0x2028, 0x2029,
          0x202F, 0x205F, 0x3000, 0xFEFF} \<or> (0x2000 \<le> c \<and> c \<le> 0x200A)"

definition trim :: "js_string \<Rightarrow> js_string" where
  "trim s = rev (dropWhile is_white_space (rev (dropWhile is_white_space s)))"

text \<open>
  A JavaScript number is an IEEE 754 binary64 value. A finite value is kept as the
  rational it denotes (\<open>Num 0\<close> is \<open>+0\<close>).
\<close>

datatype js_number = NaN | PosInfinity | NegInfinity | NegZero | Num rat

definition pow2 :: "int \<Rightarrow> rat" where
  "pow2 e = (if 0 \<le> e then 2 ^ nat e else 1 / 2 ^ nat (- e))"

definition pow10 :: "int \<Rightarrow> rat" where
  "pow10 e = (if 0 \<le> e then 10 ^ nat e else 1 / 10 ^ nat (- e))"

function bit_length :: "int \<Rightarrow> int" where
  "bit_length n = (if n \<le> 0 then 0 else 1 + bit_length (n div 2))"
  by pat_completeness auto
termination
  by (relation "measure nat") auto

declare bit_length.simps [simp del]

text \<open>The binade of a positive rational: the \<open>e\<close> with \<open>2 ^ e \<le> q < 2 ^ (e + 1)\<close>.\<close>

definition floor_log2 :: "rat \<Rightarrow> int" where
  "floor_log2 q =
     (let (a, b) = quotient_of q; d = bit_length a - bit_length b
      in if pow2 d \<le> q then d else d - 1)"

definition round_half_even :: "rat \<Rightarrow> int" where
  "round_half_even x =
     (let f = \<lfloor>x\<rfloor>; d = x - of_int f
      in if d < 1 / 2 then f else if 1 / 2 < d then f + 1
         else if even f then f else f + 1)"

text \<open>
  The binary64 value nearest to a non-negative rational, ties to the even significand:
  53 significant bits, the exponent clamped at the subnormal range, and overflow to
  infinity from \<open>2 ^ 1024\<close>.
\<close>

definition to_double :: "rat \<Rightarrow> js_number" where
  "to_double q =
     (if q = 0 then Num 0
      else let e = max (floor_log2 q) (- 1022);
               ulp = pow2 (e - 52);
               r = of_int (round_half_even (q / ulp)) * ulp
           in if pow2 1024 \<le> r then PosInfinity else Num r)"

definition negate :: "js_number \<Rightarrow> js_number" where
  "negate x =
     (case x of NaN \<Rightarrow> NaN | PosInfinity \<Rightarrow> NegInfinity | NegInfinity \<Rightarrow> PosInfinity
      | NegZero \<Rightarrow> Num 0 | Num r \<Rightarrow> if r = 0 then NegZero else Num (- r))"

definition is_digit :: "16 word \<Rightarrow> bool" where
  "is_digit c \<longleftrightarrow> 0x30 \<le> c \<and> c \<le> 0x39"

definition digit_of :: "16 word \<Rightarrow> int option" where
  "digit_of c =
     (if 0x30 \<le> c \<and> c \<le> 0x39 then Some (uint c - 0x30)
      else if 0x61 \<le> c \<and> c \<le> 0x66 then Some (uint c - 0x61 + 10)
      else if 0x41 \<le> c \<and> c \<le> 0x46 then Some (uint c - 0x41 + 10)
      else None)"

definition digits_in :: "int \<Rightarrow> js_string \<Rightarrow> bool" where
  "digits_in b ds \<longleftrightarrow>
     ds \<noteq> [] \<and> list_all (\<lambda>c. case digit_of c of None \<Rightarrow> False | Some v \<Rightarrow> v < b) ds"

definition digits_value :: "int \<Rightarrow> js_string \<Rightarrow> int" where
  "digits_value b ds =
     foldl (\<lambda>a c. b * a + (case digit_of c of None \<Rightarrow> 0 | Some v \<Rightarrow> v)) 0 ds"

text \<open>The exponent part of a decimal literal: nothing, or \<open>e\<close>/\<open>E\<close>, a sign, digits.\<close>

definition exponent_part :: "js_string \<Rightarrow> int option" where
  "exponent_part r =
     (case r of
        [] \<Rightarrow> Some 0
      | c # r' \<Rightarrow>
          if c = 0x65 \<or> c = 0x45 then
            (let ds = (case r' of [] \<Rightarrow> [] | s # t \<Rightarrow> if s = 0x2B \<or> s = 0x2D then t else r');
                 neg = (case r' of [] \<Rightarrow> False | s # t \<Rightarrow> s = 0x2D)
             in if digits_in 10 ds
                then Some ((if neg then - 1 else 1) * digits_value 10 ds)
                else None)
          else None)"

text \<open>
  An unsigned decimal literal: digits, an optional point with digits, an optional
  exponent; at least one digit before or after the point. The result is the exact value.
\<close>

definition unsigned_decimal :: "js_string \<Rightarrow> rat option" where
  "unsigned_decimal t =
     (let ip = takeWhile is_digit t; r1 = dropWhile is_digit t;
          dot = (case r1 of [] \<Rightarrow> False | c # _ \<Rightarrow> c = 0x2E);
          r2 = (if dot then tl r1 else r1);
          fp = (if dot then takeWhile is_digit r2 else []);
          r3 = (if dot then dropWhile is_digit r2 else r2)
      in if ip = [] \<and> fp = [] then None
         else case exponent_part r3 of
                None \<Rightarrow> None
              | Some ex \<Rightarrow>
                  Some (of_int (digits_value 10 (ip @ fp)) * pow10 (ex - int (length fp))))"

text \<open>Hexadecimal, octal and binary literals (\<open>0x\<close>, \<open>0o\<close>, \<open>0b\<close>); they take no sign.\<close>

definition non_decimal :: "js_string \<Rightarrow> int option" where
  "non_decimal t =
     (case t of
        z # p # ds \<Rightarrow>
          if z \<noteq> 0x30 then None
          else if (p = 0x78 \<or> p = 0x58) \<and> digits_in 16 ds then Some (digits_value 16 ds)
          else if (p = 0x6F \<or> p = 0x4F) \<and> digits_in 8 ds then Some (digits_value 8 ds)
          else if (p = 0x62 \<or> p = 0x42) \<and> digits_in 2 ds then Some (digits_value 2 ds)
          else None
      | _ \<Rightarrow> None)"

text \<open>
  \<open>Number(s)\<close> on a string: trim, the empty string is \<open>+0\<close>, a numeric literal is its
  value rounded to binary64, anything else is \<open>NaN\<close>.
\<close>

definition Number :: "js_string \<Rightarrow> js_number" where
  "Number s =
     (let t = trim s
      in case t of
           [] \<Rightarrow> Num 0
         | c # rest \<Rightarrow>
             (case non_decimal t of
                Some n \<Rightarrow> to_double (of_int n)
              | None \<Rightarrow>
                  let neg = (c = 0x2D);
                      body = (if c = 0x2B \<or> c = 0x2D then rest else t);
                      v = (if body = js ''Infinity'' then PosInfinity
                           else case unsigned_decimal body of
                                  None \<Rightarrow> NaN
                                | Some q \<Rightarrow> to_double q)
                  in if neg then negate v else v))"

text \<open>What the data model calls a positive integer, as a test on a number.\<close>

definition is_positive_integer :: "js_number \<Rightarrow> bool" where
  "is_positive_integer x =
     (case x of Num r \<Rightarrow> 0 < r \<and> snd (quotient_of r) = 1 | _ \<Rightarrow> False)"

section \<open>Data of the onboarding page\<close>

text \<open>The option tables; only \<open>value\<close> is data, label and icon are presentation.\<close>

definition transportOptions :: "js_string list" where
  "transportOptions =
     map js [''car_gasoline'', ''car_electric'', ''car_hybrid'', ''motorcycle'',
             ''public_transport'', ''bicycle'', ''walk'', ''mixed'']"

definition heatingOptions :: "js_string list" where
  "heatingOptions = map js [''electric'', ''gas'', ''solar'', ''none'']"

definition residenceSizeOptions :: "js_string list" where
  "residenceSizeOptions = map js [''small'', ''medium'', ''large'']"

definition recyclingOptions :: "js_string list" where
  "recyclingOptions = map js [''always'', ''sometimes'', ''rarely'', ''never'']"

text \<open>The object \<open>handleSubmit\<close> builds, and the row \<open>mutationFn\<close> writes.\<close>

record payload =
  name :: js_string
  household_size :: js_number
  transportation_type :: js_string
  has_solar_panels :: bool
  heating_type :: js_string
  residence_size :: js_string
  has_garden :: bool
  recycling_habit :: js_string
  onboarding_completed :: bool
  has_seen_intro :: bool

record upsert_row = payload +
  user_id :: js_string

record upsert_request =
  row_values :: upsert_row
  onConflict :: js_string

text \<open>The row the guard selects; a column may be null.\<close>

record user_infos =
  onboarding_completed :: "bool option"

record FormData =
  name :: js_string
  household_size :: js_string
  transportation_type :: js_string
  has_solar_panels :: bool
  heating_type :: js_string
  residence_size :: js_string
  has_garden :: bool
  recycling_habit :: js_string

definition initialFormState :: FormData where
  "initialFormState =
     \<lparr>name = [], household_size = [], transportation_type = [], has_solar_panels = False,
      heating_type = [], residence_size = [], has_garden = False, recycling_habit = []\<rparr>"

text \<open>The authenticated user of the auth context; \<open>ident\<close> is its \<open>id\<close>.\<close>

record user =
  ident :: js_string

text \<open>A store error with its code, and what a \<open>throw\<close> or a rejected promise carries.\<close>

record pg_error =
  code :: js_string

datatype thrown = PostgrestError pg_error | Exception js_string

datatype 'a settled = Resolved 'a | Rejected thrown

record lookup_response =
  data :: "user_infos option"
  error :: "pg_error option"

text \<open>
  \<open>Navigate p\<close> is \<open>navigate(createPageUrl(p))\<close>; the resolver from page names to paths
  is kept abstract.
\<close>

datatype page = Login | Dashboard

datatype mutation_status = Idle | Pending | Success | Error

text \<open>
  The state of the mounted component with what it has done so far: \<open>mutation\<close> is the
  status that \<open>updateUser\<close> reports (that of the latest mutation), \<open>upserts\<close> are the
  requests issued, in order, and \<open>settled\<close> the positions of those that have settled. The
  same record read as a committed render is the screen made from that state.
\<close>

record component =
  step :: int
  formData :: FormData
  userInfos :: "user_infos option"
  loadingUser :: bool
  currentUser :: "user option"
  mutation :: mutation_status
  navigations :: "page list"
  console_errors :: "thrown list"
  upserts :: "upsert_request list"
  settled :: "nat list"

definition initial_component :: "user option \<Rightarrow> component" where
  "initial_component cu =
     \<lparr>step = 1, formData = initialFormState, userInfos = None, loadingUser = True,
      currentUser = cu, mutation = Idle, navigations = [], console_errors = [],
      upserts = [], settled = []\<rparr>"

section \<open>The route guard\<close>

text \<open>
  What the guard does to the world, in the order it does it: a call of \<open>navigate\<close>, a
  call of \<open>console.error\<close>, or a call of one of the state setters.
\<close>

datatype action =
    Navigate page
  | ConsoleError thrown
  | SetUserInfos user_infos
  | SetFormData FormData
  | SetLoadingUser bool

fun apply_action :: "action \<Rightarrow> component \<Rightarrow> component" where
  "apply_action (Navigate p) st = st\<lparr>navigations := navigations st @ [p]\<rparr>"
| "apply_action (ConsoleError e) st = st\<lparr>console_errors := console_errors st @ [e]\<rparr>"
| "apply_action (SetUserInfos r) st = st\<lparr>userInfos := Some r\<rparr>"
| "apply_action (SetFormData fd) st = st\<lparr>formData := fd\<rparr>"
| "apply_action (SetLoadingUser b) st = st\<lparr>loadingUser := b\<rparr>"

definition run_actions :: "action list \<Rightarrow> component \<Rightarrow> component" where
  "run_actions acts st = foldl (\<lambda>s a. apply_action a s) st acts"

text \<open>
  The \<open>finally\<close> block and the \<open>catch\<close> block of \<open>guard\<close>; \<open>mounted\<close> is the flag of the
  effect as it stands when the block runs.
\<close>

definition guard_finally :: "bool \<Rightarrow> action list" where
  "guard_finally mounted = (if mounted then [SetLoadingUser False] else [])"

definition guard_catch :: "bool \<Rightarrow> thrown \<Rightarrow> action list" where
  "guard_catch mounted e = ConsoleError e # (if mounted then [Navigate Login] else [])"

text \<open>
  \<open>guard\<close> has one \<open>await\<close>. \<open>guard_start\<close> is the part before it: it either finishes
  (with the \<open>finally\<close> block run) or waits for the lookup of a user id.
\<close>

datatype guard_phase = Finished "action list" | AwaitLookup js_string

definition guard_start :: "bool \<Rightarrow> user option \<Rightarrow> guard_phase" where
  "guard_start mounted cu =
     (if \<not> mounted then Finished (guard_finally mounted)
      else case cu of
             None \<Rightarrow> Finished (Navigate Login # guard_finally mounted)
           | Some u \<Rightarrow> AwaitLookup (ident u))"

text \<open>\<open>{ ...userInfos }\<close>: the copy of a row, the empty object for \<open>null\<close>.\<close>

definition spread_infos :: "user_infos option \<Rightarrow> user_infos" where
  "spread_infos d = (case d of None \<Rightarrow> \<lparr>onboarding_completed = None\<rparr> | Some r \<Rightarrow> r)"

text \<open>\<open>userInfos?.onboarding_completed\<close> read as a condition.\<close>

definition completed_truthy :: "user_infos option \<Rightarrow> bool" where
  "completed_truthy d =
     (case d of None \<Rightarrow> False | Some r \<Rightarrow> onboarding_completed r = Some True)"

text \<open>
  \<open>guard_resume\<close> is the part after the \<open>await\<close>: \<open>mounted\<close> is the flag at that moment
  (the cleanup of the effect may have cleared it meanwhile), and the second argument is
  how the lookup settled.
\<close>

definition guard_resume :: "bool \<Rightarrow> lookup_response settled \<Rightarrow> action list" where
  "guard_resume mounted r =
     (case r of
        Rejected e \<Rightarrow> guard_catch mounted e @ guard_finally mounted
      | Resolved resp \<Rightarrow>
          (case error resp of
             Some infosError \<Rightarrow>
               if code infosError \<noteq> js ''PGRST116''
               then guard_catch mounted (PostgrestError infosError) @ guard_finally mounted
               else if completed_truthy (data resp)
               then Navigate Dashboard # guard_finally mounted
               else [SetUserInfos (spread_infos (data resp)), SetFormData initialFormState]
                    @ guard_finally mounted
           | None \<Rightarrow>
               if completed_truthy (data resp)
               then Navigate Dashboard # guard_finally mounted
               else [SetUserInfos (spread_infos (data resp)), SetFormData initialFormState]
                    @ guard_finally mounted))"

text \<open>
  One run of the effect: \<open>mounted\<close> starts true and \<open>guard()\<close> is called at once. \<open>store\<close>
  is the single-row lookup by user id; \<open>still_mounted\<close> says whether the component is
  still mounted when the lookup settles.
\<close>

definition guard :: "user option \<Rightarrow> (js_string \<Rightarrow> lookup_response settled) \<Rightarrow> bool \<Rightarrow> action list" where
  "guard cu store still_mounted =
     (case guard_start True cu of
        Finished acts \<Rightarrow> acts
      | AwaitLookup uid \<Rightarrow> guard_resume still_mounted (store uid))"

text \<open>An action that leaves a set loading flag set.\<close>

fun keeps_loading :: "action \<Rightarrow> bool" where
  "keeps_loading (SetLoadingUser b) = b"
| "keeps_loading _ = True"

section \<open>Rendering\<close>

definition totalSteps :: int where
  "totalSteps = 4"

text \<open>The spinner while \<open>loadingUser\<close> holds, else the wizard with the panel of one step.\<close>

datatype view = LoadingView | WizardView int

definition render :: "component \<Rightarrow> view" where
  "render st = (if loadingUser st then LoadingView else WizardView (step st))"

definition nextDisabled :: "component \<Rightarrow> bool" where
  "nextDisabled st =
     (if step st = 1 then
        trim (name (formData st)) = [] \<or> household_size (formData st) = []
        \<or> residence_size (formData st) = []
      else if step st = 2 then transportation_type (formData st) = []
      else if step st = 3 then heating_type (formData st) = []
      else if step st = 4 then recycling_habit (formData st) = []
      else True)"

definition isPending :: "component \<Rightarrow> bool" where
  "isPending st \<longleftrightarrow> mutation st = Pending"

text \<open>The three buttons of the navigation row of the wizard view.\<close>

definition back_rendered :: "component \<Rightarrow> bool" where
  "back_rendered st \<longleftrightarrow> \<not> loadingUser st \<and> 1 < step st"

definition next_rendered :: "component \<Rightarrow> bool" where
  "next_rendered st \<longleftrightarrow> \<not> loadingUser st \<and> step st < totalSteps"

definition finish_rendered :: "component \<Rightarrow> bool" where
  "finish_rendered st \<longleftrightarrow> \<not> loadingUser st \<and> \<not> step st < totalSteps"

definition finish_disabled :: "component \<Rightarrow> bool" where
  "finish_disabled st \<longleftrightarrow> isPending st \<or> nextDisabled st"

text \<open>The \<open>disabled\<close> attribute of the forward button that the step shows.\<close>

definition forward_disabled :: "component \<Rightarrow> bool" where
  "forward_disabled st =
     (if step st < totalSteps then nextDisabled st else finish_disabled st)"



section \<open>Submission\<close>

definition handleSubmit_payload :: "FormData \<Rightarrow> payload" where
  "handleSubmit_payload fd =
     \<lparr>payload.name = trim (name fd),
      payload.household_size = Number (household_size fd),
      payload.transportation_type = transportation_type fd,
      payload.has_solar_panels = has_solar_panels fd,
      payload.heating_type = heating_type fd,
      payload.residence_size = residence_size fd,
      payload.has_garden = has_garden fd,
      payload.recycling_habit = recycling_habit fd,
      payload.onboarding_completed = True,
      payload.has_seen_intro = True\<rparr>"

text \<open>\<open>{ user_id: currentUser.id, ...payload }\<close>\<close>

definition upsert_values :: "user \<Rightarrow> payload \<Rightarrow> upsert_row" where
  "upsert_values u p =
     \<lparr>payload.name = payload.name p,
      payload.household_size = payload.household_size p,
      payload.transportation_type = payload.transportation_type p,
      payload.has_solar_panels = payload.has_solar_panels p,
      payload.heating_type = payload.heating_type p,
      payload.residence_size = payload.residence_size p,
      payload.has_garden = payload.has_garden p,
      payload.recycling_habit = payload.recycling_habit p,
      payload.onboarding_completed = payload.onboarding_completed p,
      payload.has_seen_intro = payload.has_seen_intro p,
      user_id = ident u\<rparr>"

text \<open>
  \<open>mutationFn\<close> up to its \<open>await\<close>: it throws without a current user, else it issues the
  upsert. Then \<open>mutationFn\<close> after the \<open>await\<close>, on how the upsert settled.
\<close>

definition mutationFn_start :: "user option \<Rightarrow> payload \<Rightarrow> thrown + upsert_request" where
  "mutationFn_start cu p =
     (case cu of
        None \<Rightarrow> Inl (Exception (js ''Usu'' @ [0xE1] @ js ''rio n'' @ [0xE3] @ js ''o autenticado''))
      | Some u \<Rightarrow> Inr \<lparr>row_values = upsert_values u p, onConflict = js ''user_id''\<rparr>)"

definition mutationFn_finish :: "pg_error option settled \<Rightarrow> thrown + bool" where
  "mutationFn_finish r =
     (case r of
        Rejected e \<Rightarrow> Inl e
      | Resolved None \<Rightarrow> Inr True
      | Resolved (Some e) \<Rightarrow> Inl (PostgrestError e))"

text \<open>
  The mutation of the query library. \<open>mutate\<close> starts a new mutation, which becomes the
  one whose status is reported, marks it pending and runs \<open>mutationFn\<close>: a throw marks
  it failed, else the upsert is issued. It tests nothing: a mutation that is still
  pending goes on by itself.
\<close>

definition mutate :: "user option \<Rightarrow> payload \<Rightarrow> component \<Rightarrow> component" where
  "mutate cu p st =
     (case mutationFn_start cu p of
        Inl e \<Rightarrow> st\<lparr>mutation := Error\<rparr>
      | Inr req \<Rightarrow> st\<lparr>mutation := Pending, upserts := upserts st @ [req]\<rparr>)"

text \<open>
  The upsert at position \<open>i\<close> settles. Its mutation runs \<open>onSuccess\<close>, the redirect to
  the dashboard, on a result; the reported status follows only if this is the latest
  mutation and it is still pending.
\<close>

definition settle :: "nat \<Rightarrow> pg_error option settled \<Rightarrow> component \<Rightarrow> component" where
  "settle i r st =
     (let latest = (Suc i = length (upserts st) \<and> mutation st = Pending);
          st1 = st\<lparr>settled := settled st @ [i]\<rparr>
      in case mutationFn_finish r of
           Inl e \<Rightarrow> (if latest then st1\<lparr>mutation := Error\<rparr> else st1)
         | Inr ok \<Rightarrow>
             apply_action (Navigate Dashboard)
               (if latest then st1\<lparr>mutation := Success\<rparr> else st1))"

text \<open>
  \<open>handleSubmit\<close> is a closure of the render \<open>r\<close> that made the button: it reads the
  form and the current user of that render, and it tests nothing.
\<close>

definition handleSubmit :: "component \<Rightarrow> component \<Rightarrow> component" where
  "handleSubmit r st = mutate (currentUser r) (handleSubmit_payload (formData r)) st"

section \<open>The wizard\<close>

text \<open>The updaters passed to \<open>setFormData\<close> and \<open>setStep\<close>.\<close>

definition upd_name :: "js_string \<Rightarrow> FormData \<Rightarrow> FormData" where
  "upd_name v prev = prev\<lparr>name := v\<rparr>"

definition upd_household_size :: "js_string \<Rightarrow> FormData \<Rightarrow> FormData" where
  "upd_household_size v prev = prev\<lparr>household_size := v\<rparr>"

definition upd_residence_size :: "js_string \<Rightarrow> FormData \<Rightarrow> FormData" where
  "upd_residence_size v prev = prev\<lparr>residence_size := v\<rparr>"

definition toggle_has_garden :: "FormData \<Rightarrow> FormData" where
  "toggle_has_garden prev = prev\<lparr>has_garden := \<not> has_garden prev\<rparr>"

definition upd_transportation_type :: "js_string \<Rightarrow> FormData \<Rightarrow> FormData" where
  "upd_transportation_type v prev = prev\<lparr>transportation_type := v\<rparr>"

definition upd_heating_type :: "js_string \<Rightarrow> FormData \<Rightarrow> FormData" where
  "upd_heating_type v prev = prev\<lparr>heating_type := v\<rparr>"

definition toggle_has_solar_panels :: "FormData \<Rightarrow> FormData" where
  "toggle_has_solar_panels prev = prev\<lparr>has_solar_panels := \<not> has_solar_panels prev\<rparr>"

definition upd_recycling_habit :: "js_string \<Rightarrow> FormData \<Rightarrow> FormData" where
  "upd_recycling_habit v prev = prev\<lparr>recycling_habit := v\<rparr>"

definition setFormData :: "(FormData \<Rightarrow> FormData) \<Rightarrow> component \<Rightarrow> component" where
  "setFormData f st = st\<lparr>formData := f (formData st)\<rparr>"

definition setStep :: "(int \<Rightarrow> int) \<Rightarrow> component \<Rightarrow> component" where
  "setStep f st = st\<lparr>step := f (step st)\<rparr>"

text \<open>The panel of step \<open>k\<close> and its controls exist in a render that shows step \<open>k\<close>.\<close>

definition panel :: "component \<Rightarrow> int \<Rightarrow> bool" where
  "panel r k \<longleftrightarrow> \<not> loadingUser r \<and> step r = k"

text \<open>
  What can happen to the mounted component: an input changes, a button is clicked, or
  the upsert at some position settles.
\<close>

datatype event =
    ChangeName js_string
  | ChangeHousehold js_string
  | ClickResidence js_string
  | ClickGarden
  | ClickTransport js_string
  | ClickHeating js_string
  | ClickSolar
  | ClickRecycling js_string
  | ClickBack
  | ClickNext
  | ClickFinish
  | UpsertSettled nat "pg_error option settled"

text \<open>
  \<open>handle r e st\<close>: the event \<open>e\<close> arrives at a control of the committed render \<open>r\<close>
  while the state is \<open>st\<close>. The render decides whether the control exists and is
  enabled; that is the only test there is. The handler itself is unguarded: the updaters
  of \<open>setStep\<close> and \<open>setFormData\<close> are applied to the state as it is now, which need not
  be the state \<open>r\<close> was made from (two clicks can arrive before the next render is
  committed, and a panel that is leaving the screen keeps its controls for a while).
\<close>

fun handle :: "component \<Rightarrow> event \<Rightarrow> component \<Rightarrow> component" where
  "handle r (ChangeName v) st = (if panel r 1 then setFormData (upd_name v) st else st)"
| "handle r (ChangeHousehold v) st =
     (if panel r 1 then setFormData (upd_household_size v) st else st)"
| "handle r (ClickResidence v) st =
     (if panel r 1 \<and> v \<in> set residenceSizeOptions
      then setFormData (upd_residence_size v) st else st)"
| "handle r ClickGarden st = (if panel r 1 then setFormData toggle_has_garden st else st)"
| "handle r (ClickTransport v) st =
     (if panel r 2 \<and> v \<in> set transportOptions
      then setFormData (upd_transportation_type v) st else st)"
| "handle r (ClickHeating v) st =
     (if panel r 3 \<and> v \<in> set heatingOptions
      then setFormData (upd_heating_type v) st else st)"
| "handle r ClickSolar st =
     (if panel r 3 then setFormData toggle_has_solar_panels st else st)"
| "handle r (ClickRecycling v) st =
     (if panel r 4 \<and> v \<in> set recyclingOptions
      then setFormData (upd_recycling_habit v) st else st)"
| "handle r ClickBack st =
     (if back_rendered r then setStep (\<lambda>prev. prev - 1) st else st)"
| "handle r ClickNext st =
     (if next_rendered r \<and> \<not> nextDisabled r then setStep (\<lambda>prev. prev + 1) st else st)"
| "handle r ClickFinish st =
     (if finish_rendered r \<and> \<not> finish_disabled r then handleSubmit r st else st)"
| "handle r (UpsertSettled i res) st =
     (if i < length (upserts st) \<and> i \<notin> set (settled st) then settle i res st else st)"

text \<open>
  A session: guard actions and events in the order they occur, each event with the
  committed render whose control it arrives at.
\<close>

datatype occurrence = Guard action | User component event

fun occur :: "occurrence \<Rightarrow> component \<Rightarrow> component" where
  "occur (Guard a) st = apply_action a st"
| "occur (User r e) st = handle r e st"

definition run :: "occurrence list \<Rightarrow> component \<Rightarrow> component" where
  "run os st = foldl (\<lambda>s x. occur x s) st os"

text \<open>
  A session in which every click on Back or Next arrives at a render that shows the
  step the state has at that moment.
\<close>

fun nav_on_current_step :: "occurrence list \<Rightarrow> component \<Rightarrow> bool" where
  "nav_on_current_step [] st = True"
| "nav_on_current_step (Guard a # os) st = nav_on_current_step os (apply_action a st)"
| "nav_on_current_step (User r e # os) st =
     ((if e = ClickBack \<or> e = ClickNext then step r = step st else True)
      \<and> nav_on_current_step os (handle r e st))"

text \<open>Events that each arrive at the render of the state they find.\<close>

definition play :: "event list \<Rightarrow> component \<Rightarrow> component" where
  "play es st = foldl (\<lambda>s e. handle s e s) st es"

section \<open>Sample sessions\<close>

definition ana :: user where
  "ana = \<lparr>ident = js ''u-ana''\<rparr>"

text \<open>
  Four stores: one whose lookup fails, one whose request rejects, one with a completed
  row, one with no row.
\<close>

definition store_rejecting :: "js_string \<Rightarrow> lookup_response settled" where
  "store_rejecting uid = Rejected (Exception (js ''Failed to fetch''))"

definition store_failing :: "js_string \<Rightarrow> lookup_response settled" where
  "store_failing uid = Resolved \<lparr>data = None, error = Some \<lparr>code = js ''PGRST301''\<rparr>\<rparr>"

definition store_completed :: "js_string \<Rightarrow> lookup_response settled" where
  "store_completed uid =
     Resolved \<lparr>data = Some \<lparr>onboarding_completed = Some True\<rparr>, error = None\<rparr>"

definition store_no_row :: "js_string \<Rightarrow> lookup_response settled" where
  "store_no_row uid = Resolved \<lparr>data = None, error = Some \<lparr>code = js ''PGRST116''\<rparr>\<rparr>"

text \<open>
  The guard lets a new user in, who then fills the four steps, each event on the render
  of the state before it; \<open>h\<close> is the text typed into the household field. Then either
  Finish or Back is clicked.
\<close>

definition admitted :: component where
  "admitted = run_actions (guard (Some ana) store_no_row True) (initial_component (Some ana))"

definition fill_in :: "js_string \<Rightarrow> event list" where
  "fill_in h =
     [ChangeName (js ''Ana''), ChangeHousehold h, ClickResidence (js ''medium''), ClickNext,
      ClickTransport (js ''bicycle''), ClickNext,
      ClickHeating (js ''solar''), ClickNext,
      ClickRecycling (js ''always'')]"

definition filled :: "js_string \<Rightarrow> component" where
  "filled h = play (fill_in h) admitted"

definition submitted :: "js_string \<Rightarrow> component" where
  "submitted h = handle (filled h) ClickFinish (filled h)"

definition stepped_back :: "js_string \<Rightarrow> component" where
  "stepped_back h = handle (filled h) ClickBack (filled h)"

section \<open>Facts about the sample sessions\<close>

lemma trim_Ana: "trim (js ''Ana'') = js ''Ana''"
  by (simp add: trim_def js_def is_white_space_def)

lemma options_mem:
  "js ''medium'' \<in> set residenceSizeOptions"
  "js ''bicycle'' \<in> set transportOptions"
  "js ''solar'' \<in> set heatingOptions"
  "js ''always'' \<in> set recyclingOptions"
  by (simp_all add: residenceSizeOptions_def transportOptions_def heatingOptions_def
      recyclingOptions_def)

lemma js_nonempty:
  "js ''Ana'' \<noteq> []" "js ''medium'' \<noteq> []" "js ''bicycle'' \<noteq> []" "js ''solar'' \<noteq> []"
  "js ''always'' \<noteq> []" "js ''3'' \<noteq> []" "js ''0'' \<noteq> []"
  by (simp_all add: js_def)

lemma Number_3: "Number (js ''3'') = Num 3"
  by code_simp

lemma Number_0: "Number (js ''0'') = Num 0"
  by code_simp

lemma guard_None: "guard None store m = [Navigate Login, SetLoadingUser False]"
  by (simp add: guard_def guard_start_def guard_finally_def)

lemma guard_Some: "guard (Some u) store m = guard_resume m (store (ident u))"
  by (simp add: guard_def guard_start_def)

lemma admitted_eq:
  "admitted =
    \<lparr>step = 1, formData = initialFormState,
     userInfos = Some \<lparr>onboarding_completed = None\<rparr>, loadingUser = False,
     currentUser = Some ana, mutation = Idle, navigations = [], console_errors = [],
     upserts = [], settled = []\<rparr>"
  by (simp add: admitted_def guard_Some store_no_row_def guard_resume_def completed_truthy_def
      spread_infos_def guard_finally_def run_actions_def initial_component_def)

lemma filled_eq:
  "h \<noteq> [] \<Longrightarrow> filled h =
    \<lparr>step = 4,
     formData = \<lparr>name = js ''Ana'', household_size = h, transportation_type = js ''bicycle'',
        has_solar_panels = False, heating_type = js ''solar'', residence_size = js ''medium'',
        has_garden = False, recycling_habit = js ''always''\<rparr>,
     userInfos = Some \<lparr>onboarding_completed = None\<rparr>, loadingUser = False,
     currentUser = Some ana, mutation = Idle, navigations = [], console_errors = [],
     upserts = [], settled = []\<rparr>"
  by (simp add: filled_def fill_in_def play_def admitted_eq initialFormState_def
      panel_def setFormData_def setStep_def upd_name_def upd_household_size_def
      upd_residence_size_def upd_transportation_type_def upd_heating_type_def
      upd_recycling_habit_def next_rendered_def nextDisabled_def totalSteps_def
      trim_Ana options_mem js_nonempty)

lemma submitted_eq:
  "h \<noteq> [] \<Longrightarrow> submitted h =
    (filled h)\<lparr>mutation := Pending,
      upserts :=
        [\<lparr>row_values =
           \<lparr>payload.name = js ''Ana'', payload.household_size = Number h,
            payload.transportation_type = js ''bicycle'', payload.has_solar_panels = False,
            payload.heating_type = js ''solar'', payload.residence_size = js ''medium'',
            payload.has_garden = False, payload.recycling_habit = js ''always'',
            payload.onboarding_completed = True, payload.has_seen_intro = True,
            user_id = ident ana\<rparr>,
          onConflict = js ''user_id''\<rparr>]\<rparr>"
  by (simp add: submitted_def filled_eq finish_rendered_def finish_disabled_def isPending_def
      nextDisabled_def totalSteps_def js_nonempty handleSubmit_def mutate_def
      mutationFn_start_def handleSubmit_payload_def upsert_values_def trim_Ana)

lemma stepped_back_eq: "h \<noteq> [] \<Longrightarrow> stepped_back h = (filled h)\<lparr>step := 3\<rparr>"
  by (simp add: stepped_back_def filled_eq back_rendered_def setStep_def)

section \<open>Forward navigation\<close>

lemma forward_disabled_blocks:
  "forward_disabled r \<Longrightarrow> handle r ClickNext st = st \<and> handle r ClickFinish st = st"
  by (simp add: forward_disabled_def next_rendered_def finish_rendered_def split: if_splits)

text \<open>
  C1, as the code has it. On each of the four steps the forward button of a render is
  disabled exactly when the required fields of the step are unset (step 1: name empty
  after trim, or household size empty, or residence size not chosen; step 2: transport;
  step 3: heating; step 4: recycling habit), and on step 4 the Finish button is disabled
  as well while a submission is pending. A click on a disabled forward button neither
  advances nor submits, whatever the state is by then.
\<close>

theorem C1_forward_disabled:
  "(step r = 1 \<longrightarrow>
      (forward_disabled r \<longleftrightarrow>
         trim (name (formData r)) = [] \<or> household_size (formData r) = []
         \<or> residence_size (formData r) = []))
   \<and> (step r = 2 \<longrightarrow> (forward_disabled r \<longleftrightarrow> transportation_type (formData r) = []))
   \<and> (step r = 3 \<longrightarrow> (forward_disabled r \<longleftrightarrow> heating_type (formData r) = []))
   \<and> (step r = 4 \<longrightarrow>
        (forward_disabled r \<longleftrightarrow> recycling_habit (formData r) = [] \<or> mutation r = Pending))
   \<and> (forward_disabled r \<longrightarrow> handle r ClickNext st = st \<and> handle r ClickFinish st = st)"
  using forward_disabled_blocks [of r st]
  by (auto simp add: forward_disabled_def finish_disabled_def nextDisabled_def isPending_def
      totalSteps_def)

text \<open>
  C1 as stated fails after Finish has been clicked: the step is 4, the recycling habit is
  set, and the forward button is disabled all the same.
\<close>

theorem C1_counterexample:
  "step (submitted (js ''3'')) = 4
   \<and> recycling_habit (formData (submitted (js ''3''))) \<noteq> []
   \<and> forward_disabled (submitted (js ''3''))"
  by (simp add: submitted_eq filled_eq js_nonempty forward_disabled_def finish_disabled_def
      isPending_def totalSteps_def)

theorem C1_forward_disabled_witness:
  "step admitted = 1
   \<and> forward_disabled admitted
   \<and> handle admitted ClickNext admitted = admitted
   \<and> step ((filled (js ''3''))\<lparr>step := 2\<rparr>) = 2
   \<and> \<not> forward_disabled ((filled (js ''3''))\<lparr>step := 2\<rparr>)
   \<and> step (stepped_back (js ''3'')) = 3
   \<and> \<not> forward_disabled (stepped_back (js ''3''))
   \<and> step (filled (js ''3'')) = 4
   \<and> \<not> forward_disabled (filled (js ''3''))
   \<and> step (submitted (js ''3'')) = 4
   \<and> forward_disabled (submitted (js ''3''))
   \<and> handle (submitted (js ''3'')) ClickFinish (submitted (js ''3'')) = submitted (js ''3'')"
proof -
  let ?s1 = "admitted"
  let ?s2 = "(filled (js ''3''))\<lparr>step := 2\<rparr>"
  let ?s3 = "stepped_back (js ''3'')"
  let ?s4 = "filled (js ''3'')"
  let ?s5 = "submitted (js ''3'')"
  have a1: "step ?s1 = 1" and b1: "trim (name (formData ?s1)) = []"
    by (simp_all add: admitted_eq initialFormState_def trim_def)
  have d1: "forward_disabled ?s1"
    using C1_forward_disabled [of ?s1 ?s1] a1 b1 by simp
  have n1: "handle ?s1 ClickNext ?s1 = ?s1"
    using C1_forward_disabled [of ?s1 ?s1] d1 by blast
  have a2: "step ?s2 = 2" and b2: "transportation_type (formData ?s2) \<noteq> []"
    by (simp_all add: filled_eq js_nonempty)
  have d2: "\<not> forward_disabled ?s2"
    using C1_forward_disabled [of ?s2 ?s2] a2 b2 by simp
  have a3: "step ?s3 = 3" and b3: "heating_type (formData ?s3) \<noteq> []"
    by (simp_all add: stepped_back_eq filled_eq js_nonempty)
  have d3: "\<not> forward_disabled ?s3"
    using C1_forward_disabled [of ?s3 ?s3] a3 b3 by simp
  have a4: "step ?s4 = 4" and b4: "recycling_habit (formData ?s4) \<noteq> []"
    and c4: "mutation ?s4 \<noteq> Pending"
    by (simp_all add: filled_eq js_nonempty)
  have d4: "\<not> forward_disabled ?s4"
    using C1_forward_disabled [of ?s4 ?s4] a4 b4 c4 by simp
  have a5: "step ?s5 = 4" and c5: "mutation ?s5 = Pending"
    by (simp_all add: submitted_eq filled_eq js_nonempty)
  have d5: "forward_disabled ?s5"
    using C1_forward_disabled [of ?s5 ?s5] a5 c5 by simp
  have n5: "handle ?s5 ClickFinish ?s5 = ?s5"
    using C1_forward_disabled [of ?s5 ?s5] d5 by blast
  from a1 d1 n1 a2 d2 a3 d3 a4 d4 a5 d5 n5 show ?thesis by blast
qed

section \<open>The upsert payload\<close>

text \<open>
  C2. Finish on a render of a valid step 4 (the wizard shown, the recycling habit chosen,
  no submission pending) with a current user issues one upsert: the form of that render
  with the name trimmed, the household size passed through \<open>Number\<close>, the other fields
  as they are, both flags true, and the row keyed by the id of the current user, with
  \<open>user_id\<close> as conflict target.
\<close>

theorem C2_upsert_payload:
  assumes "step r = 4" and "\<not> loadingUser r" and "recycling_habit (formData r) \<noteq> []"
    and "mutation r \<noteq> Pending" and "currentUser r = Some u"
  shows "upserts (handle r ClickFinish st) =
     upserts st @
       [\<lparr>row_values =
          \<lparr>payload.name = trim (name (formData r)),
           payload.household_size = Number (household_size (formData r)),
           payload.transportation_type = transportation_type (formData r),
           payload.has_solar_panels = has_solar_panels (formData r),
           payload.heating_type = heating_type (formData r),
           payload.residence_size = residence_size (formData r),
           payload.has_garden = has_garden (formData r),
           payload.recycling_habit = recycling_habit (formData r),
           payload.onboarding_completed = True,
           payload.has_seen_intro = True,
           user_id = ident u\<rparr>,
         onConflict = js ''user_id''\<rparr>]"
  using assms
  by (simp add: finish_rendered_def finish_disabled_def isPending_def nextDisabled_def
      totalSteps_def handleSubmit_def mutate_def mutationFn_start_def handleSubmit_payload_def
      upsert_values_def)

theorem C2_upsert_payload_witness:
  "step (filled (js ''3'')) = 4 \<and> \<not> loadingUser (filled (js ''3''))
   \<and> recycling_habit (formData (filled (js ''3''))) \<noteq> []
   \<and> mutation (filled (js ''3'')) \<noteq> Pending
   \<and> currentUser (filled (js ''3'')) = Some ana
   \<and> upserts (handle (filled (js ''3'')) ClickFinish (filled (js ''3''))) =
       [\<lparr>row_values =
          \<lparr>payload.name = js ''Ana'', payload.household_size = Num 3,
           payload.transportation_type = js ''bicycle'', payload.has_solar_panels = False,
           payload.heating_type = js ''solar'', payload.residence_size = js ''medium'',
           payload.has_garden = False, payload.recycling_habit = js ''always'',
           payload.onboarding_completed = True, payload.has_seen_intro = True,
           user_id = js ''u-ana''\<rparr>,
         onConflict = js ''user_id''\<rparr>]"
proof -
  let ?st = "filled (js ''3'')"
  have h: "step ?st = 4" "\<not> loadingUser ?st" "recycling_habit (formData ?st) \<noteq> []"
    "mutation ?st \<noteq> Pending" "currentUser ?st = Some ana"
    by (simp_all add: filled_eq js_nonempty)
  have "upserts (handle ?st ClickFinish ?st) =
     [\<lparr>row_values =
          \<lparr>payload.name = js ''Ana'', payload.household_size = Num 3,
           payload.transportation_type = js ''bicycle'', payload.has_solar_panels = False,
           payload.heating_type = js ''solar'', payload.residence_size = js ''medium'',
           payload.has_garden = False, payload.recycling_habit = js ''always'',
           payload.onboarding_completed = True, payload.has_seen_intro = True,
           user_id = js ''u-ana''\<rparr>,
         onConflict = js ''user_id''\<rparr>]"
    using C2_upsert_payload [OF h, of ?st]
    by (simp add: filled_eq js_nonempty trim_Ana Number_3 ana_def)
  with h show ?thesis by blast
qed

section \<open>The step counter\<close>

lemma step_apply_action: "step (apply_action a st) = step st"
  by (cases a) simp_all

lemma step_settle: "step (settle i r st) = step st"
  by (simp add: settle_def Let_def split: sum.splits)

lemma step_handleSubmit: "step (handleSubmit r st) = step st"
  by (simp add: handleSubmit_def mutate_def split: sum.splits)

lemma step_setFormData: "step (setFormData f st) = step st"
  by (simp add: setFormData_def)

lemma step_handle_other:
  "e \<noteq> ClickBack \<Longrightarrow> e \<noteq> ClickNext \<Longrightarrow> step (handle r e st) = step st"
  by (cases e) (simp_all add: step_setFormData step_handleSubmit step_settle)

lemma handle_ClickBack:
  "handle r ClickBack st = (if \<not> loadingUser r \<and> 1 < step r then st\<lparr>step := step st - 1\<rparr> else st)"
  by (simp add: back_rendered_def setStep_def)

lemma handle_ClickNext:
  "handle r ClickNext st =
     (if \<not> loadingUser r \<and> step r < 4 \<and> \<not> nextDisabled r then st\<lparr>step := step st + 1\<rparr>
      else st)"
  by (simp add: next_rendered_def setStep_def totalSteps_def)

lemma step_range_handle:
  assumes "1 \<le> step st" and "step st \<le> 4"
    and "e = ClickBack \<or> e = ClickNext \<Longrightarrow> step r = step st"
  shows "1 \<le> step (handle r e st) \<and> step (handle r e st) \<le> 4"
proof (cases "e = ClickBack \<or> e = ClickNext")
  case True
  with assms show ?thesis
    by (auto simp add: handle_ClickBack handle_ClickNext simp del: handle.simps)
next
  case False
  with assms show ?thesis
    by (simp add: step_handle_other)
qed

lemma step_range_run:
  "1 \<le> step st \<Longrightarrow> step st \<le> 4 \<Longrightarrow> nav_on_current_step os st \<Longrightarrow>
   1 \<le> step (run os st) \<and> step (run os st) \<le> 4"
proof (induction os st rule: nav_on_current_step.induct)
  case (1 st)
  then show ?case by (simp add: run_def)
next
  case (2 a os st)
  then have "1 \<le> step (run os (apply_action a st)) \<and> step (run os (apply_action a st)) \<le> 4"
    by (simp add: step_apply_action)
  then show ?case by (simp add: run_def)
next
  case (3 r e os st)
  from "3.prems" have nav: "e = ClickBack \<or> e = ClickNext \<Longrightarrow> step r = step st"
    and rest: "nav_on_current_step os (handle r e st)"
    by (auto split: if_splits)
  from "3.prems"(1,2) nav have "1 \<le> step (handle r e st) \<and> step (handle r e st) \<le> 4"
    by (rule step_range_handle)
  with rest have "1 \<le> step (run os (handle r e st)) \<and> step (run os (handle r e st)) \<le> 4"
    using "3.IH" by blast
  then show ?case by (simp add: run_def)
qed

text \<open>
  C3, as the code has it. The step starts at 1. Back is not rendered at step 1 and is
  rendered at steps 2 to 4 of the wizard view, where a click lowers the step of the state
  by exactly 1; a click on an enabled Next raises it by exactly 1; a render of step 4 has
  no Next and has Finish in its place; no other event changes the step. The step stays in
  [1,4] over every session in which each click on Back or Next arrives at a render that
  shows the step the state has at that moment.
\<close>

theorem C3_step_navigation:
  "step (initial_component cu) = 1
   \<and> (1 \<le> step st0 \<and> step st0 \<le> 4 \<and> nav_on_current_step os st0 \<longrightarrow>
        1 \<le> step (run os st0) \<and> step (run os st0) \<le> 4)
   \<and> (step r = 1 \<longrightarrow> \<not> back_rendered r \<and> handle r ClickBack st = st)
   \<and> (\<not> loadingUser r \<and> 2 \<le> step r \<and> step r \<le> 4 \<longrightarrow>
        back_rendered r \<and> handle r ClickBack st = st\<lparr>step := step st - 1\<rparr>)
   \<and> (next_rendered r \<and> \<not> nextDisabled r \<longrightarrow>
        handle r ClickNext st = st\<lparr>step := step st + 1\<rparr>)
   \<and> (step r = 4 \<longrightarrow>
        \<not> next_rendered r \<and> handle r ClickNext st = st \<and> (\<not> loadingUser r \<longrightarrow> finish_rendered r))
   \<and> (e \<noteq> ClickBack \<and> e \<noteq> ClickNext \<longrightarrow> step (handle r e st) = step st)"
proof -
  have ini: "step (initial_component cu) = 1"
    by (simp add: initial_component_def)
  have rng: "1 \<le> step st0 \<and> step st0 \<le> 4 \<and> nav_on_current_step os st0 \<longrightarrow>
        1 \<le> step (run os st0) \<and> step (run os st0) \<le> 4"
    using step_range_run [of st0 os] by blast
  have bk1: "step r = 1 \<longrightarrow> \<not> back_rendered r \<and> handle r ClickBack st = st"
    by (simp add: back_rendered_def)
  have bk: "\<not> loadingUser r \<and> 2 \<le> step r \<and> step r \<le> 4 \<longrightarrow>
        back_rendered r \<and> handle r ClickBack st = st\<lparr>step := step st - 1\<rparr>"
    by (simp add: back_rendered_def setStep_def)
  have nx: "next_rendered r \<and> \<not> nextDisabled r \<longrightarrow>
        handle r ClickNext st = st\<lparr>step := step st + 1\<rparr>"
    by (simp add: setStep_def)
  have lst: "step r = 4 \<longrightarrow>
        \<not> next_rendered r \<and> handle r ClickNext st = st \<and> (\<not> loadingUser r \<longrightarrow> finish_rendered r)"
    by (simp add: next_rendered_def finish_rendered_def totalSteps_def)
  have oth: "e \<noteq> ClickBack \<and> e \<noteq> ClickNext \<longrightarrow> step (handle r e st) = step st"
    by (simp add: step_handle_other)
  from ini rng bk1 bk nx lst oth show ?thesis by blast
qed

text \<open>
  C3 as stated fails when two clicks on Next arrive at the same render of step 3, before
  the render of step 4 is committed: the handler has no test of its own and the step of
  the state becomes 5.
\<close>

theorem C3_counterexample:
  "step (stepped_back (js ''3'')) = 3
   \<and> step (handle (stepped_back (js ''3'')) ClickNext
            (handle (stepped_back (js ''3'')) ClickNext (stepped_back (js ''3'')))) = 5"
  by (simp add: stepped_back_eq filled_eq js_nonempty next_rendered_def nextDisabled_def
      totalSteps_def setStep_def)

theorem C3_step_navigation_witness:
  "step admitted = 1 \<and> \<not> back_rendered admitted
   \<and> handle admitted ClickBack admitted = admitted
   \<and> \<not> loadingUser (filled (js ''3'')) \<and> step (filled (js ''3'')) = 4
   \<and> back_rendered (filled (js ''3''))
   \<and> step (handle (filled (js ''3'')) ClickBack (filled (js ''3''))) = 3
   \<and> \<not> next_rendered (filled (js ''3'')) \<and> finish_rendered (filled (js ''3''))
   \<and> handle (filled (js ''3'')) ClickNext (filled (js ''3'')) = filled (js ''3'')
   \<and> next_rendered (stepped_back (js ''3'')) \<and> \<not> nextDisabled (stepped_back (js ''3''))
   \<and> step (handle (stepped_back (js ''3'')) ClickNext (stepped_back (js ''3''))) = 4
   \<and> ClickFinish \<noteq> ClickBack \<and> ClickFinish \<noteq> ClickNext
   \<and> step (handle (filled (js ''3'')) ClickFinish (filled (js ''3''))) = 4
   \<and> nav_on_current_step
        [User (filled (js ''3'')) ClickBack, User (stepped_back (js ''3'')) ClickNext]
        (filled (js ''3''))
   \<and> 1 \<le> step (run [User (filled (js ''3'')) ClickBack, User (stepped_back (js ''3'')) ClickNext]
                  (filled (js ''3'')))
   \<and> step (run [User (filled (js ''3'')) ClickBack, User (stepped_back (js ''3'')) ClickNext]
             (filled (js ''3''))) \<le> 4"
proof -
  let ?s1 = "admitted"
  let ?s3 = "stepped_back (js ''3'')"
  let ?s4 = "filled (js ''3'')"
  let ?os = "[User ?s4 ClickBack, User ?s3 ClickNext]"
  have a1: "step ?s1 = 1"
    by (simp add: admitted_eq)
  have r1: "\<not> back_rendered ?s1 \<and> handle ?s1 ClickBack ?s1 = ?s1"
    using C3_step_navigation [of "Some ana" ?s4 "[]" ?s1 ?s1 ClickFinish] a1 by blast
  have a4: "\<not> loadingUser ?s4" "step ?s4 = 4"
    by (simp_all add: filled_eq js_nonempty)
  have r4: "back_rendered ?s4 \<and> handle ?s4 ClickBack ?s4 = ?s4\<lparr>step := step ?s4 - 1\<rparr>"
    using C3_step_navigation [of "Some ana" ?s4 "[]" ?s4 ?s4 ClickFinish] a4
    by (simp del: handle.simps)
  then have b4: "step (handle ?s4 ClickBack ?s4) = 3"
    using a4 by (simp del: handle.simps)
  have l4: "\<not> next_rendered ?s4 \<and> handle ?s4 ClickNext ?s4 = ?s4 \<and> finish_rendered ?s4"
    using C3_step_navigation [of "Some ana" ?s4 "[]" ?s4 ?s4 ClickFinish] a4 by blast
  have f4: "ClickFinish \<noteq> ClickBack \<and> ClickFinish \<noteq> ClickNext"
    by simp
  have g4: "step (handle ?s4 ClickFinish ?s4) = 4"
    using C3_step_navigation [of "Some ana" ?s4 "[]" ?s4 ?s4 ClickFinish] f4 a4
    by (simp del: handle.simps)
  have a3: "next_rendered ?s3" "\<not> nextDisabled ?s3" "step ?s3 = 3"
    by (simp_all add: stepped_back_eq filled_eq js_nonempty next_rendered_def nextDisabled_def
        totalSteps_def)
  have "handle ?s3 ClickNext ?s3 = ?s3\<lparr>step := step ?s3 + 1\<rparr>"
    using C3_step_navigation [of "Some ana" ?s4 "[]" ?s3 ?s3 ClickFinish] a3 by blast
  then have r3: "step (handle ?s3 ClickNext ?s3) = 4"
    using a3 by (simp del: handle.simps)
  have bs: "handle ?s4 ClickBack ?s4 = ?s3"
    by (simp add: stepped_back_def)
  have nv: "nav_on_current_step ?os ?s4"
    using bs by (simp del: handle.simps)
  have rn: "1 \<le> step (run ?os ?s4) \<and> step (run ?os ?s4) \<le> 4"
    using C3_step_navigation [of "Some ana" ?s4 ?os ?s4 ?s4 ClickFinish] a4 nv by simp
  from a1 r1 a4 r4 b4 l4 f4 g4 a3 r3 nv rn show ?thesis by blast
qed

section \<open>The guard\<close>

lemma keeps_loading_resume: "list_all keeps_loading (butlast (guard_resume m r))"
  by (simp add: guard_resume_def guard_catch_def guard_finally_def
      split: settled.splits option.splits)

lemma keeps_loading_guard: "list_all keeps_loading (butlast (guard cu store m))"
  by (cases cu) (simp_all add: guard_None guard_Some keeps_loading_resume)

lemma loading_apply_action:
  "keeps_loading a \<Longrightarrow> loadingUser st \<Longrightarrow> loadingUser (apply_action a st)"
  by (cases a) simp_all

lemma loading_run_actions:
  "list_all keeps_loading acts \<Longrightarrow> loadingUser st \<Longrightarrow> loadingUser (run_actions acts st)"
proof (induction acts rule: rev_induct)
  case Nil
  then show ?case by (simp add: run_actions_def)
next
  case (snoc a acts)
  then have "loadingUser (run_actions acts st)" by simp
  moreover from snoc.prems have "keeps_loading a" by simp
  ultimately have "loadingUser (apply_action a (run_actions acts st))"
    by (rule loading_apply_action [rotated])
  then show ?case by (simp add: run_actions_def)
qed

lemma loading_before_end:
  assumes "loadingUser st" and "n < length (guard cu store m)"
  shows "render (run_actions (take n (guard cu store m)) st) = LoadingView"
proof -
  let ?acts = "guard cu store m"
  from assms(2) have "take n ?acts = take n (butlast ?acts)"
    by (simp add: take_butlast)
  moreover have "list_all keeps_loading (take n (butlast ?acts))"
    using keeps_loading_guard [of cu store m]
    by (auto simp add: list_all_iff dest: in_set_takeD)
  ultimately have "loadingUser (run_actions (take n ?acts) st)"
    using assms(1) by (simp add: loading_run_actions)
  then show ?thesis by (simp add: render_def)
qed

text \<open>
  C4. With no authenticated user the guard calls \<open>navigate\<close> with the login route and
  stops there: it awaits no lookup and sets neither the user infos nor the form; its
  \<open>finally\<close> block then clears the loading flag. Until the last action of a guard run
  (any run) the component renders the loading view, never the wizard.
\<close>

theorem C4_unauthenticated:
  "guard_start True None = Finished [Navigate Login, SetLoadingUser False]
   \<and> guard None store m = [Navigate Login, SetLoadingUser False]
   \<and> (loadingUser st \<longrightarrow>
        (\<forall>n < length (guard cu store m).
           render (run_actions (take n (guard cu store m)) st) = LoadingView))"
  by (simp add: guard_None loading_before_end) (simp add: guard_start_def guard_finally_def)

theorem C4_unauthenticated_witness:
  "loadingUser (initial_component None)
   \<and> render (initial_component None) = LoadingView
   \<and> render (apply_action (Navigate Login) (initial_component None)) = LoadingView
   \<and> navigations (apply_action (Navigate Login) (initial_component None)) = [Login]"
proof -
  let ?st = "initial_component None"
  have l: "loadingUser ?st"
    by (simp add: initial_component_def)
  have g: "guard None store_no_row True = [Navigate Login, SetLoadingUser False]"
    using C4_unauthenticated [of store_no_row True ?st None] by blast
  have al: "\<forall>n < length (guard None store_no_row True).
      render (run_actions (take n (guard None store_no_row True)) ?st) = LoadingView"
    using C4_unauthenticated [of store_no_row True ?st None] l by blast
  have "0 < length (guard None store_no_row True)"
    and "1 < length (guard None store_no_row True)"
    by (simp_all add: g)
  with al have "render (run_actions (take 0 (guard None store_no_row True)) ?st) = LoadingView"
    and "render (run_actions (take 1 (guard None store_no_row True)) ?st) = LoadingView"
    by blast+
  then have "render ?st = LoadingView"
    and "render (apply_action (Navigate Login) ?st) = LoadingView"
    by (simp_all add: g run_actions_def)
  moreover have "navigations (apply_action (Navigate Login) ?st) = [Login]"
    by (simp add: initial_component_def)
  ultimately show ?thesis using l by blast
qed

lemma guard_resume_error:
  "error resp = Some e \<Longrightarrow> code e \<noteq> js ''PGRST116'' \<Longrightarrow>
   guard_resume mounted (Resolved resp) =
     ConsoleError (PostgrestError e) # (if mounted then [Navigate Login, SetLoadingUser False] else [])"
  by (simp add: guard_resume_def guard_catch_def guard_finally_def)

lemma guard_resume_rejected:
  "guard_resume mounted (Rejected x) =
     ConsoleError x # (if mounted then [Navigate Login, SetLoadingUser False] else [])"
  by (simp add: guard_resume_def guard_catch_def guard_finally_def)

lemma guard_resume_no_row:
  "error resp = Some e \<Longrightarrow> code e = js ''PGRST116'' \<Longrightarrow> data resp = None \<Longrightarrow>
   guard_resume mounted (Resolved resp) =
     [SetUserInfos \<lparr>onboarding_completed = None\<rparr>, SetFormData initialFormState]
     @ (if mounted then [SetLoadingUser False] else [])"
  by (simp add: guard_resume_def guard_finally_def completed_truthy_def spread_infos_def)


text \<open>
  C5, as the code has it. When the lookup fails with an error whose code is not PGRST116,
  or the lookup promise rejects, the guard logs the error; it then redirects to the login
  route only if the component is still mounted. A no-matching-row result (PGRST116, no
  data) is not an error: in a component that is still mounted the guard stores the empty
  infos, sets the form to its defaults and clears the loading flag, after which the
  wizard renders.
\<close>

theorem C5_lookup_failure:
  "(store (ident u) = Resolved resp \<and> error resp = Some e \<and> code e \<noteq> js ''PGRST116'' \<longrightarrow>
      guard (Some u) store mounted =
        ConsoleError (PostgrestError e)
        # (if mounted then [Navigate Login, SetLoadingUser False] else []))
   \<and> (store (ident u) = Rejected x \<longrightarrow>
      guard (Some u) store mounted =
        ConsoleError x # (if mounted then [Navigate Login, SetLoadingUser False] else []))
   \<and> (store (ident u) = Resolved resp \<and> error resp = Some e \<and> code e = js ''PGRST116''
        \<and> data resp = None \<longrightarrow>
      guard (Some u) store True =
        [SetUserInfos \<lparr>onboarding_completed = None\<rparr>, SetFormData initialFormState,
         SetLoadingUser False]
      \<and> render (run_actions (guard (Some u) store True) st) = WizardView (step st))"
proof -
  have a: "store (ident u) = Resolved resp \<and> error resp = Some e \<and> code e \<noteq> js ''PGRST116'' \<longrightarrow>
      guard (Some u) store mounted =
        ConsoleError (PostgrestError e)
        # (if mounted then [Navigate Login, SetLoadingUser False] else [])"
    by (simp add: guard_Some guard_resume_error)
  have b: "store (ident u) = Rejected x \<longrightarrow>
      guard (Some u) store mounted =
        ConsoleError x # (if mounted then [Navigate Login, SetLoadingUser False] else [])"
    by (simp add: guard_Some guard_resume_rejected)
  have c: "store (ident u) = Resolved resp \<and> error resp = Some e \<and> code e = js ''PGRST116''
        \<and> data resp = None \<longrightarrow>
      guard (Some u) store True =
        [SetUserInfos \<lparr>onboarding_completed = None\<rparr>, SetFormData initialFormState,
         SetLoadingUser False]
      \<and> render (run_actions (guard (Some u) store True) st) = WizardView (step st)"
    by (simp add: guard_Some guard_resume_no_row run_actions_def render_def)
  from a b c show ?thesis by blast
qed

text \<open>
  C5 as stated fails when the component has unmounted before the lookup settles: the
  error is logged and no redirect to the login route is issued.
\<close>

theorem C5_counterexample:
  "guard (Some ana) store_failing False
     = [ConsoleError (PostgrestError \<lparr>code = js ''PGRST301''\<rparr>)]
   \<and> Navigate Login \<notin> set (guard (Some ana) store_failing False)"
  by (simp add: guard_Some guard_resume_def guard_catch_def guard_finally_def store_failing_def
      js_def)

theorem C5_lookup_failure_witness:
  "guard (Some ana) store_failing True
     = [ConsoleError (PostgrestError \<lparr>code = js ''PGRST301''\<rparr>), Navigate Login,
        SetLoadingUser False]
   \<and> guard (Some ana) store_rejecting True
     = [ConsoleError (Exception (js ''Failed to fetch'')), Navigate Login, SetLoadingUser False]
   \<and> guard (Some ana) store_no_row True
     = [SetUserInfos \<lparr>onboarding_completed = None\<rparr>, SetFormData initialFormState,
        SetLoadingUser False]
   \<and> render (run_actions (guard (Some ana) store_no_row True) (initial_component (Some ana)))
     = WizardView 1"
proof -
  let ?bad = "\<lparr>data = None, error = Some \<lparr>code = js ''PGRST301''\<rparr>\<rparr>"
  let ?none = "\<lparr>data = None, error = Some \<lparr>code = js ''PGRST116''\<rparr>\<rparr>"
  let ?x = "Exception (js ''Failed to fetch'')"
  let ?st = "initial_component (Some ana)"
  have h1: "store_failing (ident ana) = Resolved ?bad \<and> error ?bad = Some \<lparr>code = js ''PGRST301''\<rparr>
      \<and> code \<lparr>code = js ''PGRST301''\<rparr> \<noteq> js ''PGRST116''"
    by (simp add: store_failing_def js_def)
  have r1: "guard (Some ana) store_failing True
     = [ConsoleError (PostgrestError \<lparr>code = js ''PGRST301''\<rparr>), Navigate Login,
        SetLoadingUser False]"
    using C5_lookup_failure [of store_failing ana ?bad "\<lparr>code = js ''PGRST301''\<rparr>" True ?x ?st] h1
    by simp
  have h2: "store_rejecting (ident ana) = Rejected ?x"
    by (simp add: store_rejecting_def)
  have r2: "guard (Some ana) store_rejecting True
     = [ConsoleError ?x, Navigate Login, SetLoadingUser False]"
    using C5_lookup_failure [of store_rejecting ana ?bad "\<lparr>code = js ''PGRST301''\<rparr>" True ?x ?st] h2
    by simp
  have h3: "store_no_row (ident ana) = Resolved ?none \<and> error ?none = Some \<lparr>code = js ''PGRST116''\<rparr>
      \<and> code \<lparr>code = js ''PGRST116''\<rparr> = js ''PGRST116'' \<and> data ?none = None"
    by (simp add: store_no_row_def)
  note t3 = C5_lookup_failure [of store_no_row ana ?none "\<lparr>code = js ''PGRST116''\<rparr>" True ?x ?st]
  from t3 h3 have r3: "guard (Some ana) store_no_row True
     = [SetUserInfos \<lparr>onboarding_completed = None\<rparr>, SetFormData initialFormState,
        SetLoadingUser False]"
    by blast
  from t3 h3 have "render (run_actions (guard (Some ana) store_no_row True) ?st)
     = WizardView (step ?st)"
    by blast
  moreover have "step ?st = 1"
    by (simp add: initial_component_def)
  ultimately have r4: "render (run_actions (guard (Some ana) store_no_row True) ?st)
     = WizardView 1"
    by simp
  from r1 r2 r3 r4 show ?thesis by blast
qed




text \<open>
  C8 does not hold of the code. After an unmount the \<open>catch\<close> and \<open>finally\<close> blocks test
  the flag, the path of a settled lookup does not: for a completed row the guard still
  calls \<open>navigate\<close> with the dashboard route, and for a missing row it still calls
  \<open>setUserInfos\<close> and \<open>setFormData\<close>.
\<close>

theorem C8_unmounted_guard_still_acts:
  "guard (Some ana) store_completed False = [Navigate Dashboard]
   \<and> guard (Some ana) store_no_row False
       = [SetUserInfos \<lparr>onboarding_completed = None\<rparr>, SetFormData initialFormState]"
  by (simp add: guard_Some guard_resume_def guard_finally_def completed_truthy_def
      spread_infos_def store_completed_def store_no_row_def)

section \<open>Submission failure\<close>

lemma nextDisabled_mutation [simp]: "nextDisabled (st\<lparr>mutation := m\<rparr>) = nextDisabled st"
  by (simp add: nextDisabled_def)

lemma nextDisabled_upserts [simp]: "nextDisabled (st\<lparr>upserts := us\<rparr>) = nextDisabled st"
  by (simp add: nextDisabled_def)

lemma nextDisabled_settled [simp]: "nextDisabled (st\<lparr>settled := ss\<rparr>) = nextDisabled st"
  by (simp add: nextDisabled_def)







section \<open>The household size that is submitted\<close>

lemma Number_zero_and_others:
  "Number (js ''-2'') = Num (- 2)" "Number (js ''2.5'') = Num (5 / 2)"
  by code_simp+

lemma js_nonempty_more: "js ''-2'' \<noteq> []" "js ''2.5'' \<noteq> []"
  by (simp_all add: js_def)

text \<open>
  C9 does not hold of the code. The household field is required to be non-empty and
  nothing more: with \<open>0\<close>, \<open>-2\<close> or \<open>2.5\<close> typed into it the wizard reaches Finish, and
  the upsert carries the number 0, -2 or 2.5, none of them a positive integer.
\<close>

theorem C9_household_not_positive_integer:
  "length (upserts (submitted (js ''0''))) = 1
   \<and> payload.household_size (row_values (hd (upserts (submitted (js ''0''))))) = Num 0
   \<and> \<not> is_positive_integer (Num 0)
   \<and> payload.household_size (row_values (hd (upserts (submitted (js ''-2''))))) = Num (- 2)
   \<and> \<not> is_positive_integer (Num (- 2))
   \<and> payload.household_size (row_values (hd (upserts (submitted (js ''2.5''))))) = Num (5 / 2)
   \<and> \<not> is_positive_integer (Num (5 / 2))"
proof -
  have "\<not> is_positive_integer (Num 0)" "\<not> is_positive_integer (Num (- 2))"
    "\<not> is_positive_integer (Num (5 / 2))"
    by code_simp+
  then show ?thesis
    by (simp add: submitted_eq js_nonempty js_nonempty_more Number_0 Number_zero_and_others)
qed

section \<open>Frame of the field edits\<close>

lemma setFormData_frame: "(setFormData f st)\<lparr>formData := fd\<rparr> = st\<lparr>formData := fd\<rparr>"
  by (simp add: setFormData_def)

lemma edit_frame:
  "(handle r (ChangeName v) st)\<lparr>formData := fd\<rparr> = st\<lparr>formData := fd\<rparr>"
  "(handle r (ChangeHousehold v) st)\<lparr>formData := fd\<rparr> = st\<lparr>formData := fd\<rparr>"
  "(handle r (ClickResidence v) st)\<lparr>formData := fd\<rparr> = st\<lparr>formData := fd\<rparr>"
  "(handle r ClickGarden st)\<lparr>formData := fd\<rparr> = st\<lparr>formData := fd\<rparr>"
  "(handle r (ClickTransport v) st)\<lparr>formData := fd\<rparr> = st\<lparr>formData := fd\<rparr>"
  "(handle r (ClickHeating v) st)\<lparr>formData := fd\<rparr> = st\<lparr>formData := fd\<rparr>"
  "(handle r ClickSolar st)\<lparr>formData := fd\<rparr> = st\<lparr>formData := fd\<rparr>"
  "(handle r (ClickRecycling v) st)\<lparr>formData := fd\<rparr> = st\<lparr>formData := fd\<rparr>"
  by (simp_all add: setFormData_frame)

lemma edit_step:
  "step (handle r (ChangeName v) st) = step st"
  "step (handle r (ChangeHousehold v) st) = step st"
  "step (handle r (ClickResidence v) st) = step st"
  "step (handle r ClickGarden st) = step st"
  "step (handle r (ClickTransport v) st) = step st"
  "step (handle r (ClickHeating v) st) = step st"
  "step (handle r ClickSolar st) = step st"
  "step (handle r (ClickRecycling v) st) = step st"
  by (simp_all add: step_setFormData)

lemma edit_form:
  "formData (handle r (ChangeName v) st) \<in> {formData st, upd_name v (formData st)}"
  "formData (handle r (ChangeHousehold v) st) \<in> {formData st, upd_household_size v (formData st)}"
  "formData (handle r (ClickResidence v) st) \<in> {formData st, upd_residence_size v (formData st)}"
  "formData (handle r ClickGarden st) \<in> {formData st, toggle_has_garden (formData st)}"
  "formData (handle r (ClickTransport v) st)
     \<in> {formData st, upd_transportation_type v (formData st)}"
  "formData (handle r (ClickHeating v) st) \<in> {formData st, upd_heating_type v (formData st)}"
  "formData (handle r ClickSolar st) \<in> {formData st, toggle_has_solar_panels (formData st)}"
  "formData (handle r (ClickRecycling v) st) \<in> {formData st, upd_recycling_habit v (formData st)}"
  by (simp_all add: setFormData_def)

lemma updater_frame:
  "(upd_name v prev)\<lparr>name := x\<rparr> = prev\<lparr>name := x\<rparr>"
  "(upd_household_size v prev)\<lparr>household_size := x\<rparr> = prev\<lparr>household_size := x\<rparr>"
  "(upd_residence_size v prev)\<lparr>residence_size := x\<rparr> = prev\<lparr>residence_size := x\<rparr>"
  "(toggle_has_garden prev)\<lparr>has_garden := b\<rparr> = prev\<lparr>has_garden := b\<rparr>"
  "(upd_transportation_type v prev)\<lparr>transportation_type := x\<rparr>
     = prev\<lparr>transportation_type := x\<rparr>"
  "(upd_heating_type v prev)\<lparr>heating_type := x\<rparr> = prev\<lparr>heating_type := x\<rparr>"
  "(toggle_has_solar_panels prev)\<lparr>has_solar_panels := b\<rparr> = prev\<lparr>has_solar_panels := b\<rparr>"
  "(upd_recycling_habit v prev)\<lparr>recycling_habit := x\<rparr> = prev\<lparr>recycling_habit := x\<rparr>"
  by (simp_all add: upd_name_def upd_household_size_def upd_residence_size_def
      toggle_has_garden_def upd_transportation_type_def upd_heating_type_def
      toggle_has_solar_panels_def upd_recycling_habit_def)

lemma toggle_negates:
  "has_garden (toggle_has_garden prev) = (\<not> has_garden prev)"
  "has_solar_panels (toggle_has_solar_panels prev) = (\<not> has_solar_panels prev)"
  by (simp_all add: toggle_has_garden_def toggle_has_solar_panels_def)

text \<open>
  C10. Each of the eight field edits, at whatever render its control belongs to, leaves
  the component as it was apart from the form (so the step, too), and the form after it
  is the old form or the old form passed through the updater of the edit; each updater
  leaves the form as it was apart from its own field; the two toggles negate their own
  field.
\<close>

theorem C10_field_edit_frame:
  "((handle r (ChangeName v) st)\<lparr>formData := fd\<rparr> = st\<lparr>formData := fd\<rparr>
    \<and> (handle r (ChangeHousehold v) st)\<lparr>formData := fd\<rparr> = st\<lparr>formData := fd\<rparr>
    \<and> (handle r (ClickResidence v) st)\<lparr>formData := fd\<rparr> = st\<lparr>formData := fd\<rparr>
    \<and> (handle r ClickGarden st)\<lparr>formData := fd\<rparr> = st\<lparr>formData := fd\<rparr>
    \<and> (handle r (ClickTransport v) st)\<lparr>formData := fd\<rparr> = st\<lparr>formData := fd\<rparr>
    \<and> (handle r (ClickHeating v) st)\<lparr>formData := fd\<rparr> = st\<lparr>formData := fd\<rparr>
    \<and> (handle r ClickSolar st)\<lparr>formData := fd\<rparr> = st\<lparr>formData := fd\<rparr>
    \<and> (handle r (ClickRecycling v) st)\<lparr>formData := fd\<rparr> = st\<lparr>formData := fd\<rparr>)
   \<and> (step (handle r (ChangeName v) st) = step st
    \<and> step (handle r (ChangeHousehold v) st) = step st
    \<and> step (handle r (ClickResidence v) st) = step st
    \<and> step (handle r ClickGarden st) = step st
    \<and> step (handle r (ClickTransport v) st) = step st
    \<and> step (handle r (ClickHeating v) st) = step st
    \<and> step (handle r ClickSolar st) = step st
    \<and> step (handle r (ClickRecycling v) st) = step st)
   \<and> (formData (handle r (ChangeName v) st) \<in> {formData st, upd_name v (formData st)}
    \<and> formData (handle r (ChangeHousehold v) st)
        \<in> {formData st, upd_household_size v (formData st)}
    \<and> formData (handle r (ClickResidence v) st)
        \<in> {formData st, upd_residence_size v (formData st)}
    \<and> formData (handle r ClickGarden st) \<in> {formData st, toggle_has_garden (formData st)}
    \<and> formData (handle r (ClickTransport v) st)
        \<in> {formData st, upd_transportation_type v (formData st)}
    \<and> formData (handle r (ClickHeating v) st) \<in> {formData st, upd_heating_type v (formData st)}
    \<and> formData (handle r ClickSolar st) \<in> {formData st, toggle_has_solar_panels (formData st)}
    \<and> formData (handle r (ClickRecycling v) st)
        \<in> {formData st, upd_recycling_habit v (formData st)})
   \<and> ((upd_name v prev)\<lparr>name := x\<rparr> = prev\<lparr>name := x\<rparr>
    \<and> (upd_household_size v prev)\<lparr>household_size := x\<rparr> = prev\<lparr>household_size := x\<rparr>
    \<and> (upd_residence_size v prev)\<lparr>residence_size := x\<rparr> = prev\<lparr>residence_size := x\<rparr>
    \<and> (toggle_has_garden prev)\<lparr>has_garden := b\<rparr> = prev\<lparr>has_garden := b\<rparr>
    \<and> (upd_transportation_type v prev)\<lparr>transportation_type := x\<rparr>
        = prev\<lparr>transportation_type := x\<rparr>
    \<and> (upd_heating_type v prev)\<lparr>heating_type := x\<rparr> = prev\<lparr>heating_type := x\<rparr>
    \<and> (toggle_has_solar_panels prev)\<lparr>has_solar_panels := b\<rparr> = prev\<lparr>has_solar_panels := b\<rparr>
    \<and> (upd_recycling_habit v prev)\<lparr>recycling_habit := x\<rparr> = prev\<lparr>recycling_habit := x\<rparr>)
   \<and> has_garden (toggle_has_garden prev) = (\<not> has_garden prev)
   \<and> has_solar_panels (toggle_has_solar_panels prev) = (\<not> has_solar_panels prev)"
  by (intro conjI edit_frame edit_step edit_form updater_frame toggle_negates)

end
